theory Spec2Isabelle
  imports Complex_Main
begin

section \<open>JavaScript strings and nullable values\<close>

text \<open>
  A JavaScript string is a sequence of UTF-16 code units; a code unit is modelled by its
  number. A value that may be \<open>null\<close> or \<open>undefined\<close> is an \<open>option\<close>, with
  \<open>None\<close> for both. String literals of the source are written with \<open>str\<close>.
\<close>

type_synonym jsstring = "nat list"

definition str :: "string \<Rightarrow> jsstring" where
  "str s = map of_char s"

text \<open>Truthiness of a nullable string: \<open>null\<close>, \<open>undefined\<close> and \<open>''\<close> are falsy.\<close>

fun truthy :: "jsstring option \<Rightarrow> bool" where
  "truthy None = False"
| "truthy (Some s) = (s \<noteq> [])"

text \<open>\<open>x || ''\<close> on a nullable string.\<close>

fun or_empty :: "jsstring option \<Rightarrow> jsstring" where
  "or_empty None = []"
| "or_empty (Some s) = s"

text \<open>\<open>x || null\<close> on a nullable string.\<close>

definition or_null :: "jsstring option \<Rightarrow> jsstring option" where
  "or_null x = (if truthy x then x else None)"

text \<open>
  \<open>String.prototype.trim\<close> removes the white space and line terminator code units of
  ECMAScript from both ends: TAB, LF, VT, FF, CR, SP, NBSP, U+1680, U+2000 to U+200A,
  U+2028, U+2029, U+202F, U+205F, U+3000 and U+FEFF.
\<close>

definition is_ws :: "nat \<Rightarrow> bool" where
  "is_ws c = (c \<in> set [9, 10, 11, 12, 13, 32, 160, 5760, 8232, 8233, 8239, 8287, 12288, 65279]
              \<or> (8192 \<le> c \<and> c \<le> 8202))"

definition trim :: "jsstring \<Rightarrow> jsstring" where
  "trim s = rev (dropWhile is_ws (rev (dropWhile is_ws s)))"

text \<open>
  \<open>toLowerCase\<close> on the ASCII letters. Element tag names, the only strings the source
  lowers, are ASCII.
\<close>

definition toLowerCase :: "jsstring \<Rightarrow> jsstring" where
  "toLowerCase s = map (\<lambda>c. if 65 \<le> c \<and> c \<le> 90 then c + 32 else c) s"

section \<open>The interview screen: data\<close>

text \<open>An exception value: what a rejected promise or a \<open>throw\<close> carries.\<close>

datatype exn = NetworkError | TypeError | NotAllowedError | InvalidCharacterError

text \<open>A Turn of \<open>interviewTurns\<close>, with the fields of \<open>baseTurn\<close> in \<open>processAudio\<close>;
  \<open>turn_number\<close> is absent until the turn is patched.\<close>

record turn =
  id_t :: jsstring
  student_question :: jsstring
  student_audio_url :: "jsstring option"
  persona_response :: jsstring
  persona_audio_url :: "jsstring option"
  timestamp :: jsstring
  turn_number :: "int option"

text \<open>An \<open>Audio\<close> element, as far as the screen uses it.\<close>

record audio =
  src :: jsstring
  paused :: bool
  currentTime :: nat

text \<open>
  The operations that leave the component: the requests of \<open>apiService\<close> and the
  browser's audio calls. The state keeps them in the order they were made.
\<close>

datatype call =
    StartSession jsstring
  | CheckSessionStatus jsstring
  | EndSession jsstring
  | UploadAudio "nat list"
  | GetPersonaReply jsstring jsstring jsstring
  | GenerateTTS jsstring jsstring
  | CreateObjectURL "nat list"
  | NewAudio jsstring
  | AudioPause jsstring
  | AudioSeekZero jsstring
  | AudioPlay jsstring

text \<open>The responses of \<open>getPersonaReply\<close> and \<open>generateTTS\<close>.\<close>

datatype reply_result = ReplyResult (reply: "jsstring option") (reply_turn_number: "int option")

datatype tts_result = TTSResult (audio_base64: "jsstring option") (audio_url: "jsstring option")

text \<open>
  \<open>apiService\<close> and the browser are outside the source. One run of a handler makes each
  request at most once, so the surroundings of a run are the outcome of each request:
  \<open>Inl\<close> a rejection, \<open>Inr\<close> the response. A response that is \<open>null\<close> where the source
  reads a field of it is a \<open>TypeError\<close> at the same place, so it is the \<open>Inl\<close> case too.
  \<open>makeTurnId\<close> and \<open>new Date().toISOString()\<close> read the clock and the random
  generator; their results are given as well.
\<close>

record env =
  startSession_r :: "exn + jsstring option"
  checkSessionStatus_r :: "exn + bool"
  endSession_r :: "exn + unit"
  uploadAudio_r :: "exn + jsstring option"
  getPersonaReply_r :: "exn + reply_result"
  generateTTS_r :: "exn + tts_result"
  atob_r :: "exn + jsstring"
  createObjectURL_r :: jsstring
  makeTurnId_r :: jsstring
  toISOString_r :: jsstring
  play_r :: "exn + unit"

text \<open>
  The state of the screen: the props \<open>persona.id\<close> and \<open>interviewTurns\<close> and the
  \<open>error\<close> message of the parent, the state variables, the refs, and the calls made.
\<close>

record screen =
  persona_id :: jsstring
  interviewTurns :: "turn list"
  error :: jsstring
  processing :: bool
  personaTyping :: bool
  sessionId :: "jsstring option"
  sessionActive :: bool
  isRecording :: bool
  playingKey :: jsstring
  currentAudioRef :: "audio option"
  currentAudioUrlRef :: jsstring
  userBlobUrlsRef :: "jsstring list"
  isRecordingRef :: bool
  processingRef :: bool
  sessionActiveRef :: bool
  sessionIdRef :: "jsstring option"
  spaceIsDownRef :: bool
  calls :: "call list"

section \<open>Control flow: exceptions over the state\<close>

text \<open>
  A piece of the source is a function from the state to a completion and the new state:
  \<open>Inr x\<close> is normal completion with \<open>x\<close>, \<open>Inl e\<close> is the exception \<open>e\<close> thrown.
  An \<open>await\<close> is sequencing: the model runs one handler at a time.
\<close>

type_synonym 'a prog = "screen \<Rightarrow> (exn + 'a) \<times> screen"

definition ret :: "'a \<Rightarrow> 'a prog" where
  "ret x s = (Inr x, s)"

definition bnd :: "'a prog \<Rightarrow> ('a \<Rightarrow> 'b prog) \<Rightarrow> 'b prog" where
  "bnd m f s = (case m s of (Inl e, s') \<Rightarrow> (Inl e, s') | (Inr x, s') \<Rightarrow> f x s')"

definition modify :: "(screen \<Rightarrow> screen) \<Rightarrow> unit prog" where
  "modify f s = (Inr (), f s)"

text \<open>\<open>try { m } catch (e) { h e }\<close>\<close>

definition try_catch :: "'a prog \<Rightarrow> (exn \<Rightarrow> 'a prog) \<Rightarrow> 'a prog" where
  "try_catch m h s = (case m s of (Inl e, s') \<Rightarrow> h e s' | (Inr x, s') \<Rightarrow> (Inr x, s'))"

text \<open>\<open>try { m } finally { fin }\<close>: \<open>fin\<close> runs on every exit of \<open>m\<close>, and an exception of
  \<open>fin\<close> replaces the completion of \<open>m\<close>.\<close>

definition try_finally :: "'a prog \<Rightarrow> unit prog \<Rightarrow> 'a prog" where
  "try_finally m fin s =
     (case m s of (r, s') \<Rightarrow>
        (case fin s' of (Inl e, s'') \<Rightarrow> (Inl e, s'') | (Inr u, s'') \<Rightarrow> (r, s'')))"

text \<open>A request: it is recorded, and completes as the surroundings say.\<close>

definition request :: "call \<Rightarrow> exn + 'a \<Rightarrow> 'a prog" where
  "request c r s = (r, s\<lparr>calls := calls s @ [c]\<rparr>)"

text \<open>The setters of the state variables and of the parent's \<open>error\<close>.\<close>

definition setError :: "jsstring \<Rightarrow> unit prog" where
  "setError m = modify (\<lambda>s. s\<lparr>error := m\<rparr>)"

definition setProcessing :: "bool \<Rightarrow> unit prog" where
  "setProcessing b = modify (\<lambda>s. s\<lparr>processing := b\<rparr>)"

definition setPersonaTyping :: "bool \<Rightarrow> unit prog" where
  "setPersonaTyping b = modify (\<lambda>s. s\<lparr>personaTyping := b\<rparr>)"

definition setSessionId :: "jsstring option \<Rightarrow> unit prog" where
  "setSessionId x = modify (\<lambda>s. s\<lparr>sessionId := x\<rparr>)"

definition setSessionActive :: "bool \<Rightarrow> unit prog" where
  "setSessionActive b = modify (\<lambda>s. s\<lparr>sessionActive := b\<rparr>)"

definition setPlayingKey :: "jsstring \<Rightarrow> unit prog" where
  "setPlayingKey k = modify (\<lambda>s. s\<lparr>playingKey := k\<rparr>)"

definition setInterviewTurns :: "(turn list \<Rightarrow> turn list) \<Rightarrow> unit prog" where
  "setInterviewTurns f = modify (\<lambda>s. s\<lparr>interviewTurns := f (interviewTurns s)\<rparr>)"

section \<open>Session helpers\<close>

text \<open>
  \<open>initializeSession\<close>: the start request inside its own \<open>try\<close>; on a rejection the error
  message is set and \<open>null\<close> returned.
\<close>

definition initializeSession :: "env \<Rightarrow> (jsstring option) prog" where
  "initializeSession env =
     try_catch
       (\<lambda>s. bnd (request (StartSession (persona_id s)) (startSession_r env)) (\<lambda>session_id.
             bnd (setSessionId session_id) (\<lambda>_.
             bnd (modify (\<lambda>s. s\<lparr>sessionIdRef := session_id\<rparr>)) (\<lambda>_.
             bnd (setSessionActive True) (\<lambda>_.
             ret session_id)))) s)
       (\<lambda>err. bnd (setError (str ''Failed to initialize interview session'')) (\<lambda>_. ret None))"

text \<open>
  \<open>ensureSession\<close>: with no id held, start a session; otherwise ask for the status, and
  start a session when it is not active or when the status request fails.
\<close>

definition ensureSession :: "env \<Rightarrow> (jsstring option) prog" where
  "ensureSession env s =
     (let id = sessionIdRef s in
      if \<not> truthy id then initializeSession env s
      else
        try_catch
          (bnd (request (CheckSessionStatus (or_empty id)) (checkSessionStatus_r env)) (\<lambda>active.
             if \<not> active then initializeSession env else ret id))
          (\<lambda>err. initializeSession env) s)"

text \<open>
  \<open>endSessionCleanup\<close>: nothing without an id; otherwise the end request with its
  exception dropped, then the local session state is cleared.
\<close>

definition endSessionCleanup :: "env \<Rightarrow> unit prog" where
  "endSessionCleanup env s =
     (let id = sessionIdRef s in
      if \<not> truthy id then ret () s
      else
        bnd (try_catch (request (EndSession (or_empty id)) (endSession_r env)) (\<lambda>err. ret ())) (\<lambda>_.
        bnd (setSessionActive False) (\<lambda>_.
        bnd (setSessionId None) (\<lambda>_.
        modify (\<lambda>s. s\<lparr>sessionIdRef := None\<rparr>)))) s)"

definition count_StartSession :: "call list \<Rightarrow> nat" where
  "count_StartSession cs = length (filter (\<lambda>c. case c of StartSession p \<Rightarrow> True | _ \<Rightarrow> False) cs)"

section \<open>Audio helpers\<close>

text \<open>
  \<open>stopCurrentAudio\<close>: pause the held element and reset its position, with any exception
  dropped; then clear the now-playing key and the recorded URL. The element stays held.
\<close>

definition stopCurrentAudio :: "unit prog" where
  "stopCurrentAudio =
     bnd (try_catch
            (\<lambda>s. case currentAudioRef s of
                    None \<Rightarrow> ret () s
                  | Some a \<Rightarrow>
                      (Inr (), s\<lparr>currentAudioRef := Some (a\<lparr>paused := True, currentTime := 0\<rparr>),
                                 calls := calls s @ [AudioPause (src a), AudioSeekZero (src a)]\<rparr>))
            (\<lambda>err. ret ())) (\<lambda>_.
     bnd (setPlayingKey []) (\<lambda>_.
     modify (\<lambda>s. s\<lparr>currentAudioUrlRef := []\<rparr>)))"

text \<open>\<open>currentAudioRef.current.currentTime = 0\<close>\<close>

definition seekZero :: "unit prog" where
  "seekZero s =
     (case currentAudioRef s of
        None \<Rightarrow> (Inl TypeError, s)
      | Some a \<Rightarrow> (Inr (), s\<lparr>currentAudioRef := Some (a\<lparr>currentTime := 0\<rparr>),
                             calls := calls s @ [AudioSeekZero (src a)]\<rparr>))"

text \<open>\<open>play()\<close> on the held element: the promise resolves or rejects as the browser decides.\<close>

definition audio_play :: "env \<Rightarrow> unit prog" where
  "audio_play env s =
     (case currentAudioRef s of
        None \<Rightarrow> (Inl TypeError, s)
      | Some a \<Rightarrow>
          (case play_r env of
             Inl e \<Rightarrow> (Inl e, s\<lparr>calls := calls s @ [AudioPlay (src a)]\<rparr>)
           | Inr u \<Rightarrow> (Inr (), s\<lparr>currentAudioRef := Some (a\<lparr>paused := False\<rparr>),
                                  calls := calls s @ [AudioPlay (src a)]\<rparr>)))"

text \<open>\<open>new Audio(url)\<close>, stored in \<open>currentAudioRef\<close>.\<close>

definition new_Audio :: "jsstring \<Rightarrow> unit prog" where
  "new_Audio url s =
     (Inr (), s\<lparr>currentAudioRef := Some \<lparr>src = url, paused = True, currentTime = 0\<rparr>,
                calls := calls s @ [NewAudio url]\<rparr>)"

text \<open>The \<open>onended\<close> handler that \<open>playAudio\<close> installs on a new element.\<close>

definition onended :: "unit prog" where
  "onended =
     bnd (setPlayingKey []) (\<lambda>_.
     modify (\<lambda>s. s\<lparr>currentAudioUrlRef := []\<rparr>))"

definition playAudio :: "env \<Rightarrow> jsstring option \<Rightarrow> jsstring option \<Rightarrow> unit prog" where
  "playAudio env url bubbleKey =
     try_catch
       (\<lambda>s. if \<not> truthy url then ret () s
            else if currentAudioRef s \<noteq> None \<and> Some (currentAudioUrlRef s) = url then
              bnd seekZero (\<lambda>_.
              bnd (audio_play env) (\<lambda>_.
              setPlayingKey (or_empty bubbleKey))) s
            else
              bnd stopCurrentAudio (\<lambda>_.
              bnd (new_Audio (or_empty url)) (\<lambda>_.
              bnd (modify (\<lambda>s. s\<lparr>currentAudioUrlRef := or_empty url\<rparr>)) (\<lambda>_.
              bnd (setPlayingKey (or_empty bubbleKey)) (\<lambda>_.
              audio_play env)))) s)
       (\<lambda>err. ret ())"

section \<open>The turn pipeline\<close>

text \<open>\<open>Array.prototype.findIndex\<close>, with \<open>None\<close> for \<open>-1\<close>.\<close>

fun findIndex :: "('a \<Rightarrow> bool) \<Rightarrow> 'a list \<Rightarrow> nat option" where
  "findIndex P [] = None"
| "findIndex P (x # xs) = (if P x then Some 0 else map_option Suc (findIndex P xs))"

text \<open>
  \<open>base64ToBlob\<close>: \<open>atob\<close> throws on input that is not base64; the code units of its
  result are stored in a \<open>Uint8Array\<close>, which keeps the low eight bits.
\<close>

definition base64ToBlob :: "env \<Rightarrow> jsstring \<Rightarrow> (nat list) prog" where
  "base64ToBlob env base64 s =
     (case atob_r env of
        Inl e \<Rightarrow> (Inl e, s)
      | Inr byteCharacters \<Rightarrow> (Inr (map (\<lambda>c. c mod 256) byteCharacters), s))"

text \<open>Step 6 of \<open>processAudio\<close>: the updater passed to \<open>setInterviewTurns\<close>.\<close>

definition patchTurn ::
  "jsstring \<Rightarrow> jsstring \<Rightarrow> jsstring option \<Rightarrow> int option \<Rightarrow> turn list \<Rightarrow> turn list" where
  "patchTurn turnId reply_text personaAudioUrl reply_tn prev =
     (case findIndex (\<lambda>t. id_t t = turnId) prev of
        None \<Rightarrow> prev
      | Some idx \<Rightarrow>
          prev[idx := (prev ! idx)
                 \<lparr>persona_response := reply_text,
                  persona_audio_url := personaAudioUrl,
                  turn_number :=
                    Some (case reply_tn of
                            None \<Rightarrow> int idx + 1
                          | Some n \<Rightarrow> if n \<noteq> 0 then n else int idx + 1)\<rparr>])"

definition baseTurn :: "env \<Rightarrow> jsstring \<Rightarrow> jsstring option \<Rightarrow> turn" where
  "baseTurn env text userAudioUrl =
     \<lparr>id_t = makeTurnId_r env,
      student_question = text,
      student_audio_url = or_null userAudioUrl,
      persona_response = [],
      persona_audio_url = None,
      timestamp = toISOString_r env,
      turn_number = None\<rparr>"

text \<open>Step 5: the speech request for a non-empty reply, in either representation.\<close>

definition synthesize :: "env \<Rightarrow> jsstring \<Rightarrow> (jsstring option) prog" where
  "synthesize env reply_text s =
     (if reply_text \<noteq> [] then
        bnd (request (GenerateTTS reply_text (persona_id s)) (generateTTS_r env)) (\<lambda>ttsResult.
          if truthy (audio_base64 ttsResult) then
            bnd (base64ToBlob env (or_empty (audio_base64 ttsResult))) (\<lambda>audioBlob.
            bnd (request (CreateObjectURL audioBlob) (Inr (createObjectURL_r env))) (\<lambda>personaAudioUrl.
            bnd (modify (\<lambda>s. s\<lparr>userBlobUrlsRef := userBlobUrlsRef s @ [personaAudioUrl]\<rparr>)) (\<lambda>_.
            ret (Some personaAudioUrl))))
          else if truthy (audio_url ttsResult) then ret (audio_url ttsResult)
          else ret None) s
      else ret None s)"

text \<open>The body of the \<open>try\<close> of \<open>processAudio\<close>; a \<open>return\<close> ends it normally.\<close>

definition processAudio_try :: "env \<Rightarrow> nat list \<Rightarrow> jsstring option \<Rightarrow> unit prog" where
  "processAudio_try env audioBlob userAudioUrl =
     bnd (setProcessing True) (\<lambda>_.
     bnd (ensureSession env) (\<lambda>id.
       if \<not> truthy id then
         bnd (setError (str ''Could not start interview session.'')) (\<lambda>_.
         setProcessing False)
       else
         bnd (request (UploadAudio audioBlob) (uploadAudio_r env)) (\<lambda>transcript.
           let text = trim (or_empty transcript) in
           if text = [] then
             bnd (setError (str ''No speech detected. Please try again.'')) (\<lambda>_.
             setProcessing False)
           else
             let turnId = makeTurnId_r env in
             bnd (setInterviewTurns (\<lambda>prev. prev @ [baseTurn env text userAudioUrl])) (\<lambda>_.
             bnd (setPersonaTyping True) (\<lambda>_.
             bnd (\<lambda>s. request (GetPersonaReply (persona_id s) text (or_empty id))
                        (getPersonaReply_r env) s) (\<lambda>replyResult.
               let reply_text = trim (or_empty (reply replyResult)) in
               bnd (synthesize env reply_text) (\<lambda>personaAudioUrl.
               bnd (setInterviewTurns
                      (patchTurn turnId reply_text personaAudioUrl
                         (reply_turn_number replyResult))) (\<lambda>_.
               if truthy personaAudioUrl
               then playAudio env personaAudioUrl (Some (str ''p-'' @ turnId))
               else ret ()))))))))"

definition processAudio :: "env \<Rightarrow> nat list \<Rightarrow> jsstring option \<Rightarrow> unit prog" where
  "processAudio env audioBlob userAudioUrl =
     try_finally
       (try_catch (processAudio_try env audioBlob userAudioUrl)
          (\<lambda>err. setError (str ''Failed to process audio'')))
       (bnd (setPersonaTyping False) (\<lambda>_. setProcessing False))"

section \<open>Push-to-talk\<close>

text \<open>A keyboard event: the fields the handlers read. \<open>target_tagName\<close> is
  \<open>e.target?.tagName\<close> and \<open>target_isContentEditable\<close> whether
  \<open>e.target?.isContentEditable\<close> is truthy.\<close>

record key_event =
  code :: jsstring
  key :: jsstring
  keyCode :: nat
  target_tagName :: "jsstring option"
  target_isContentEditable :: bool

definition targetIsEditable :: "key_event \<Rightarrow> bool" where
  "targetIsEditable e =
     (let tag = toLowerCase (or_empty (target_tagName e))
      in tag = str ''input'' \<or> tag = str ''textarea'' \<or> target_isContentEditable e)"

definition isSpace :: "key_event \<Rightarrow> bool" where
  "isSpace e = (code e = str ''Space'' \<or> key e = str '' '' \<or> key e = str ''Spacebar''
                \<or> keyCode e = 32)"

text \<open>What a key-down asks for: \<open>startRecording()\<close> or \<open>stopRecording()\<close>.\<close>

datatype transition = StartRecording | StopRecording

definition onKeyDown :: "key_event \<Rightarrow> screen \<Rightarrow> transition option \<times> screen" where
  "onKeyDown e s =
     (if \<not> isSpace e \<or> targetIsEditable e then (None, s)
      else if spaceIsDownRef s then (None, s)
      else
        let s' = s\<lparr>spaceIsDownRef := True\<rparr> in
        if processingRef s' \<or> \<not> sessionActiveRef s' then (None, s')
        else (Some (if isRecordingRef s' then StopRecording else StartRecording), s'))"

definition onKeyUp :: "key_event \<Rightarrow> screen \<Rightarrow> transition option \<times> screen" where
  "onKeyUp e s = (if \<not> isSpace e then (None, s) else (None, s\<lparr>spaceIsDownRef := False\<rparr>))"

text \<open>
  What happens to the screen between key events: the recorder, the pipeline and the
  session helpers change the state variables, and the effects copy them into the refs
  the key handlers read. None of them writes \<open>spaceIsDownRef\<close>. \<open>Rendered r p a\<close> stands
  for any such activity, leaving \<open>isRecording\<close>, \<open>processing\<close> and \<open>sessionActive\<close> at
  \<open>r\<close>, \<open>p\<close> and \<open>a\<close>.
\<close>

datatype event = KeyDown key_event | KeyUp key_event | Rendered bool bool bool

fun step :: "event \<Rightarrow> screen \<Rightarrow> transition option \<times> screen" where
  "step (KeyDown e) s = onKeyDown e s"
| "step (KeyUp e) s = onKeyUp e s"
| "step (Rendered r p a) s =
     (None, s\<lparr>isRecording := r, processing := p, sessionActive := a,
              isRecordingRef := r, processingRef := p, sessionActiveRef := a\<rparr>)"

text \<open>The transitions asked for along a sequence of events, one entry per event.\<close>

fun run :: "event list \<Rightarrow> screen \<Rightarrow> transition option list" where
  "run [] s = []"
| "run (ev # evs) s = (case step ev s of (t, s') \<Rightarrow> t # run evs s')"

fun is_space_keyup :: "event \<Rightarrow> bool" where
  "is_space_keyup (KeyUp e) = isSpace e"
| "is_space_keyup _ = False"

definition transitions :: "transition option list \<Rightarrow> nat" where
  "transitions ts = length (filter (\<lambda>t. t \<noteq> None) ts)"

section \<open>The feedback adapter\<close>

text \<open>
  The report is the parsed JSON body of a response, or \<open>null\<close> or \<open>undefined\<close>. A number
  is a double: one of the three special values or a finite value. An object is the list
  of its own properties in enumeration order.
\<close>

datatype jsnum = JNaN | JPosInf | JNegInf | JFin real

datatype jsval =
    JUndefined
  | JNull
  | JBool bool
  | JNum jsnum
  | JStr jsstring
  | JArr "jsval list"
  | JObj "(jsstring \<times> jsval) list"

text \<open>Truthiness: \<open>undefined\<close>, \<open>null\<close>, \<open>false\<close>, \<open>0\<close>, \<open>NaN\<close> and \<open>''\<close> are falsy.\<close>

fun truthy_v :: "jsval \<Rightarrow> bool" where
  "truthy_v JUndefined = False"
| "truthy_v JNull = False"
| "truthy_v (JBool b) = b"
| "truthy_v (JNum n) = (n \<noteq> JNaN \<and> n \<noteq> JFin 0)"
| "truthy_v (JStr s) = (s \<noteq> [])"
| "truthy_v (JArr xs) = True"
| "truthy_v (JObj kvs) = True"

text \<open>\<open>a || b\<close>\<close>

definition or_v :: "jsval \<Rightarrow> jsval \<Rightarrow> jsval" where
  "or_v a b = (if truthy_v a then a else b)"

text \<open>
  \<open>v.k\<close> for a property name \<open>k\<close> that no prototype defines (every name the adapter reads
  is one): a \<open>TypeError\<close> on \<open>null\<close> and \<open>undefined\<close>, the own property of an object,
  \<open>undefined\<close> otherwise.
\<close>

fun get_prop :: "jsval \<Rightarrow> jsstring \<Rightarrow> exn + jsval" where
  "get_prop JUndefined k = Inl TypeError"
| "get_prop JNull k = Inl TypeError"
| "get_prop (JObj kvs) k = Inr (case map_of kvs k of None \<Rightarrow> JUndefined | Some v \<Rightarrow> v)"
| "get_prop v k = Inr JUndefined"

text \<open>\<open>Object.values\<close>: the property values of an object, the elements of an array, the
  code units of a string, nothing for a number or a boolean.\<close>

fun Object_values :: "jsval \<Rightarrow> exn + jsval list" where
  "Object_values JUndefined = Inl TypeError"
| "Object_values JNull = Inl TypeError"
| "Object_values (JObj kvs) = Inr (map snd kvs)"
| "Object_values (JArr xs) = Inr xs"
| "Object_values (JStr s) = Inr (map (\<lambda>c. JStr [c]) s)"
| "Object_values v = Inr []"

fun isArray :: "jsval \<Rightarrow> bool" where
  "isArray (JArr xs) = True"
| "isArray v = False"

text \<open>Sequencing of completions without state.\<close>

definition andThen :: "exn + 'a \<Rightarrow> ('a \<Rightarrow> exn + 'b) \<Rightarrow> exn + 'b" where
  "andThen r f = (case r of Inl e \<Rightarrow> Inl e | Inr x \<Rightarrow> f x)"

text \<open>
  \<open>ToString(v)\<close>. An object parsed from JSON has no callable own property, so its
  conversion to a primitive finds \<open>Object.prototype.valueOf\<close>, which returns the object,
  and then \<open>toString\<close>: the inherited one gives \<open>[object Object]\<close>, an own property
  \<open>toString\<close> is not callable and the conversion throws a \<open>TypeError\<close>. An array is
  joined with commas, \<open>null\<close> and \<open>undefined\<close> elements giving the empty string. The
  string of a number belongs to the language; it is the parameter \<open>numstr\<close>.
\<close>

fun ToString_v :: "(jsnum \<Rightarrow> jsstring) \<Rightarrow> jsval \<Rightarrow> exn + jsstring"
  and join_v :: "(jsnum \<Rightarrow> jsstring) \<Rightarrow> jsval list \<Rightarrow> exn + jsstring"
  and element_v :: "(jsnum \<Rightarrow> jsstring) \<Rightarrow> jsval \<Rightarrow> exn + jsstring" where
  "ToString_v numstr JUndefined = Inr (str ''undefined'')"
| "ToString_v numstr JNull = Inr (str ''null'')"
| "ToString_v numstr (JBool b) = Inr (if b then str ''true'' else str ''false'')"
| "ToString_v numstr (JNum n) = Inr (numstr n)"
| "ToString_v numstr (JStr s) = Inr s"
| "ToString_v numstr (JArr xs) = join_v numstr xs"
| "ToString_v numstr (JObj kvs) =
     (if map_of kvs (str ''toString'') \<noteq> None then Inl TypeError
      else Inr (str ''[object Object]''))"
| "join_v numstr [] = Inr []"
| "join_v numstr [x] = element_v numstr x"
| "join_v numstr (x # y # ys) =
     andThen (element_v numstr x) (\<lambda>a.
     andThen (join_v numstr (y # ys)) (\<lambda>b. Inr (a @ str '','' @ b)))"
| "element_v numstr JUndefined = Inr []"
| "element_v numstr JNull = Inr []"
| "element_v numstr (JBool b) = ToString_v numstr (JBool b)"
| "element_v numstr (JNum n) = ToString_v numstr (JNum n)"
| "element_v numstr (JStr s) = ToString_v numstr (JStr s)"
| "element_v numstr (JArr xs) = ToString_v numstr (JArr xs)"
| "element_v numstr (JObj kvs) = ToString_v numstr (JObj kvs)"

text \<open>
  \<open>Number(v)\<close>. An array or object is converted to a primitive first, which is its
  string here and may throw. The number of a string (\<open>StringToNumber\<close>) belongs to the
  language; it is the parameter \<open>strnum\<close>.
\<close>

fun Number_v ::
  "(jsstring \<Rightarrow> jsnum) \<Rightarrow> (jsnum \<Rightarrow> jsstring) \<Rightarrow> jsval \<Rightarrow> exn + jsnum" where
  "Number_v strnum numstr JUndefined = Inr JNaN"
| "Number_v strnum numstr JNull = Inr (JFin 0)"
| "Number_v strnum numstr (JBool b) = Inr (JFin (if b then 1 else 0))"
| "Number_v strnum numstr (JNum n) = Inr n"
| "Number_v strnum numstr (JStr s) = Inr (strnum s)"
| "Number_v strnum numstr (JArr xs) =
     andThen (ToString_v numstr (JArr xs)) (\<lambda>p. Inr (strnum p))"
| "Number_v strnum numstr (JObj kvs) =
     andThen (ToString_v numstr (JObj kvs)) (\<lambda>p. Inr (strnum p))"

text \<open>Whether the conversion of a value to a primitive throws: it is an object with an own
  property \<open>toString\<close>, or an array that holds such a value.\<close>

fun unconvertible :: "jsval \<Rightarrow> bool"
  and unconvertible_list :: "jsval list \<Rightarrow> bool" where
  "unconvertible (JObj kvs) = (map_of kvs (str ''toString'') \<noteq> None)"
| "unconvertible (JArr xs) = unconvertible_list xs"
| "unconvertible JUndefined = False"
| "unconvertible JNull = False"
| "unconvertible (JBool b) = False"
| "unconvertible (JNum n) = False"
| "unconvertible (JStr s) = False"
| "unconvertible_list [] = False"
| "unconvertible_list (x # xs) = (unconvertible x \<or> unconvertible_list xs)"

text \<open>
  \<open>titleCase\<close>: every underscore becomes a space, then every word character
  (\<open>[A-Za-z0-9_]\<close>) that follows a non-word character or starts the string is put in
  upper case.
\<close>

definition is_word :: "nat \<Rightarrow> bool" where
  "is_word c = ((48 \<le> c \<and> c \<le> 57) \<or> (65 \<le> c \<and> c \<le> 90) \<or> c = 95 \<or> (97 \<le> c \<and> c \<le> 122))"

definition toUpperCase_word :: "nat \<Rightarrow> nat" where
  "toUpperCase_word c = (if 97 \<le> c \<and> c \<le> 122 then c - 32 else c)"

fun capitalise :: "bool \<Rightarrow> jsstring \<Rightarrow> jsstring" where
  "capitalise after_word [] = []"
| "capitalise after_word (c # cs) =
     (if is_word c \<and> \<not> after_word then toUpperCase_word c else c) # capitalise (is_word c) cs"

definition titleCase :: "jsstring \<Rightarrow> jsstring" where
  "titleCase s = capitalise False (map (\<lambda>c. if c = 95 then 32 else c) s)"

text \<open>\<open>titleCase\<close> on any value: only a string has \<open>replace\<close>.\<close>

fun titleCase_v :: "jsval \<Rightarrow> exn + jsstring" where
  "titleCase_v (JStr s) = Inr (titleCase s)"
| "titleCase_v v = Inl TypeError"

record category =
  id_c :: jsval
  name :: jsstring
  score :: jsnum
  level :: jsval
  weight :: jsval
  description :: jsval
  evidence :: jsval
  suggestions :: jsval

record normalized =
  categories :: "category list"
  strengths :: jsval
  improvements :: jsval
  quotes :: jsval
  overall :: "(jsstring \<times> jsval) list"

text \<open>A \<open>map\<close> whose callback may throw.\<close>

fun map_throwing :: "('a \<Rightarrow> exn + 'b) \<Rightarrow> 'a list \<Rightarrow> exn + 'b list" where
  "map_throwing f [] = Inr []"
| "map_throwing f (x # xs) =
     andThen (f x) (\<lambda>y. andThen (map_throwing f xs) (\<lambda>ys. Inr (y # ys)))"

text \<open>The callback of \<open>map\<close> in \<open>normalizeReport\<close>.\<close>

definition make_category ::
  "(jsstring \<Rightarrow> jsnum) \<Rightarrow> (jsnum \<Rightarrow> jsstring) \<Rightarrow> jsval \<Rightarrow> exn + category" where
  "make_category strnum numstr s =
     andThen (get_prop s (str ''category_id'')) (\<lambda>category_id.
     andThen (titleCase_v category_id) (\<lambda>nm.
     andThen (get_prop s (str ''score'')) (\<lambda>sc.
     andThen (Number_v strnum numstr (or_v sc (JNum (JFin 0)))) (\<lambda>score_number.
     andThen (get_prop s (str ''level'')) (\<lambda>lv.
     andThen (get_prop s (str ''weight'')) (\<lambda>wt.
     andThen (get_prop s (str ''description'')) (\<lambda>ds.
     andThen (get_prop s (str ''evidence'')) (\<lambda>ev.
     andThen (get_prop s (str ''suggestions'')) (\<lambda>sg.
       Inr \<lparr>id_c = category_id,
            name = nm,
            score = score_number,
            level = lv,
            weight = wt,
            description = ds,
            evidence = or_v ev (JArr []),
            suggestions = or_v sg (JArr [])\<rparr>)))))))))"

definition array_or_empty :: "jsval \<Rightarrow> jsval" where
  "array_or_empty v = (if isArray v then v else JArr [])"

definition normalizeReport ::
  "(jsstring \<Rightarrow> jsnum) \<Rightarrow> (jsnum \<Rightarrow> jsstring) \<Rightarrow> jsval \<Rightarrow> exn + normalized" where
  "normalizeReport strnum numstr report =
     (if \<not> truthy_v report then
        Inr \<lparr>categories = [], strengths = JArr [], improvements = JArr [], quotes = JArr [],
             overall = []\<rparr>
      else
        andThen (get_prop report (str ''scores'')) (\<lambda>scores.
        andThen (Object_values (or_v scores (JObj []))) (\<lambda>entries.
        andThen (map_throwing (make_category strnum numstr) entries) (\<lambda>cats.
        andThen (get_prop report (str ''strengths'')) (\<lambda>st.
        andThen (get_prop report (str ''improvements'')) (\<lambda>im.
        andThen (get_prop report (str ''quote_highlights'')) (\<lambda>qh.
        andThen (get_prop report (str ''overall_score'')) (\<lambda>os.
        andThen (get_prop report (str ''overall_level'')) (\<lambda>ol.
        andThen (get_prop report (str ''overall_summary'')) (\<lambda>osm.
        andThen (get_prop report (str ''total_turns'')) (\<lambda>tt.
        andThen (get_prop report (str ''duration_seconds'')) (\<lambda>du.
          Inr \<lparr>categories = cats,
               strengths = array_or_empty st,
               improvements = array_or_empty im,
               quotes = array_or_empty qh,
               overall = [(str ''score'', os), (str ''level'', ol), (str ''summary'', osm),
                          (str ''totalTurns'', tt), (str ''durationSeconds'', du)]\<rparr>))))))))))))"

text \<open>The entries of \<open>report.scores || {}\<close>, and whether each carries a string
  \<open>category_id\<close>.\<close>

definition score_entries :: "jsval \<Rightarrow> jsval list" where
  "score_entries report =
     (case andThen (get_prop report (str ''scores'')) (\<lambda>scores. Object_values (or_v scores (JObj []))) of
        Inl e \<Rightarrow> []
      | Inr entries \<Rightarrow> entries)"

fun has_string_category_id :: "jsval \<Rightarrow> bool" where
  "has_string_category_id s =
     (case get_prop s (str ''category_id'') of Inr (JStr c) \<Rightarrow> True | _ \<Rightarrow> False)"

section \<open>Example inputs\<close>

text \<open>A screen that holds the session \<open>s1\<close> and has no turns yet, surroundings in which
  every request succeeds, and a turn of an earlier run.\<close>

definition s_held :: screen where
  "s_held = \<lparr>persona_id = str ''p42'', interviewTurns = [], error = [], processing = False,
     personaTyping = False, sessionId = Some (str ''s1''), sessionActive = True,
     isRecording = False, playingKey = [], currentAudioRef = None, currentAudioUrlRef = [],
     userBlobUrlsRef = [], isRecordingRef = False, processingRef = False,
     sessionActiveRef = True, sessionIdRef = Some (str ''s1''), spaceIsDownRef = False,
     calls = []\<rparr>"

definition env_ok :: env where
  "env_ok = \<lparr>startSession_r = Inr (Some (str ''s2'')), checkSessionStatus_r = Inr True,
     endSession_r = Inr (), uploadAudio_r = Inr (Some (str ''Hello'')),
     getPersonaReply_r = Inr (ReplyResult (Some (str ''Good question'')) (Some 1)),
     generateTTS_r = Inr (TTSResult None (Some (str ''https://tts/1.mp3''))),
     atob_r = Inl InvalidCharacterError, createObjectURL_r = str ''blob:1'',
     makeTurnId_r = str ''t1'', toISOString_r = str ''2025-01-01T00:00:00.000Z'',
     play_r = Inr ()\<rparr>"

definition turn0 :: turn where
  "turn0 = \<lparr>id_t = str ''t1'', student_question = str ''Hi'', student_audio_url = None,
     persona_response = str ''Welcome'', persona_audio_url = None,
     timestamp = str ''2025-01-01T00:00:00.000Z'', turn_number = Some 1\<rparr>"

text \<open>A key-down of the space bar on the page body, and the screen after \<open>blob:7\<close>
  was played under the key \<open>p-7\<close>.\<close>

definition space_key :: key_event where
  "space_key = \<lparr>code = str ''Space'', key = str '' '', keyCode = 32,
     target_tagName = Some (str ''BODY''), target_isContentEditable = False\<rparr>"

definition s_playing :: screen where
  "s_playing = snd (playAudio env_ok (Some (str ''blob:7'')) (Some (str ''p-7'')) s_held)"

text \<open>A report with three score entries, the second without a score and the third with
  an array as score, and a field \<open>improvements\<close> that is not an array; and a report whose
  one score is the object \<open>{"toString": 0}\<close>.\<close>

definition report1 :: jsval where
  "report1 = JObj
     [(str ''scores'', JObj
         [(str ''active_listening'',
             JObj [(str ''category_id'', JStr (str ''active_listening'')),
                   (str ''score'', JNum (JFin 3)),
                   (str ''level'', JStr (str ''Proficient''))]),
          (str ''open_questions'',
             JObj [(str ''category_id'', JStr (str ''open_questions''))]),
          (str ''follow_up'',
             JObj [(str ''category_id'', JStr (str ''follow_up'')),
                   (str ''score'', JArr [JNum (JFin 3)])])]),
      (str ''strengths'', JArr [JStr (str ''Warm tone'')]),
      (str ''improvements'', JStr (str ''none'')),
      (str ''overall_score'', JNum (JFin 3))]"

definition report_toString :: jsval where
  "report_toString = JObj
     [(str ''scores'', JObj
         [(str ''rapport'',
             JObj [(str ''category_id'', JStr (str ''rapport'')),
                   (str ''score'', JObj [(str ''toString'', JNum (JFin 0))])])])]"

section \<open>Properties: control flow and helpers\<close>

lemmas prog_defs = ret_def bnd_def modify_def try_catch_def try_finally_def request_def
  setError_def setProcessing_def setPersonaTyping_def setSessionId_def setSessionActive_def
  setPlayingKey_def setInterviewTurns_def

lemma initializeSession_eq:
  "initializeSession env s =
     (case startSession_r env of
        Inl e \<Rightarrow> (Inr None, s\<lparr>calls := calls s @ [StartSession (persona_id s)],
                               error := str ''Failed to initialize interview session''\<rparr>)
      | Inr sid \<Rightarrow> (Inr sid, s\<lparr>calls := calls s @ [StartSession (persona_id s)],
                                sessionId := sid, sessionIdRef := sid, sessionActive := True\<rparr>))"
  by (simp add: initializeSession_def prog_defs split: sum.splits)

lemma ensureSession_turns:
  "ensureSession env s = (r, s') \<Longrightarrow> interviewTurns s' = interviewTurns s"
  by (auto simp: ensureSession_def Let_def initializeSession_eq prog_defs
           split: sum.splits if_splits)

lemma ensureSession_returns: "ensureSession env s \<noteq> (Inl e, s')"
  by (cases "startSession_r env"; cases "checkSessionStatus_r env")
     (auto simp: ensureSession_def Let_def initializeSession_eq prog_defs split: if_splits)

lemma stopCurrentAudio_turns:
  "stopCurrentAudio s = (r, s') \<Longrightarrow> interviewTurns s' = interviewTurns s \<and> r = Inr ()"
  by (auto simp: stopCurrentAudio_def prog_defs split: option.splits)

lemma playAudio_turns:
  "playAudio env url k s = (r, s') \<Longrightarrow> interviewTurns s' = interviewTurns s \<and> r = Inr ()"
  by (auto simp: playAudio_def stopCurrentAudio_def seekZero_def audio_play_def new_Audio_def
        prog_defs split: option.splits sum.splits if_splits)

lemma synthesize_turns:
  "synthesize env t s = (r, s') \<Longrightarrow> interviewTurns s' = interviewTurns s"
  by (auto simp: synthesize_def base64ToBlob_def prog_defs split: sum.splits if_splits)


lemma ensureSession_ok:
  assumes "(truthy (sessionIdRef s) \<and> checkSessionStatus_r env = Inr True)
           \<or> (\<exists>sid. startSession_r env = Inr sid \<and> truthy sid)"
  shows "\<exists>sid s1. ensureSession env s = (Inr sid, s1) \<and> truthy sid"
  using assms
  by (cases "startSession_r env"; cases "checkSessionStatus_r env")
     (auto simp: ensureSession_def Let_def initializeSession_eq prog_defs)

lemma trim_blank:
  assumes "\<forall>c\<in>set t. is_ws c"
  shows "trim t = []"
proof -
  from assms have blank: "dropWhile is_ws t = []" by (induction t) simp_all
  show ?thesis unfolding trim_def blank by simp
qed

lemma processAudio_turns_shape:
  "\<exists>url. interviewTurns (snd (processAudio env b u s)) \<in>
     {interviewTurns s,
      interviewTurns s @
        [baseTurn env (case uploadAudio_r env of Inl e \<Rightarrow> [] | Inr tr \<Rightarrow> trim (or_empty tr)) u],
      patchTurn (makeTurnId_r env)
        (case getPersonaReply_r env of Inl e \<Rightarrow> [] | Inr rr \<Rightarrow> trim (or_empty (reply rr))) url
        (case getPersonaReply_r env of Inl e \<Rightarrow> None | Inr rr \<Rightarrow> reply_turn_number rr)
        (interviewTurns s @
          [baseTurn env (case uploadAudio_r env of Inl e \<Rightarrow> [] | Inr tr \<Rightarrow> trim (or_empty tr)) u])}"
  by (auto simp: processAudio_def processAudio_try_def prog_defs Let_def
      split: prod.splits sum.splits if_splits
      dest!: ensureSession_turns synthesize_turns playAudio_turns)


lemma findIndex_Some:
  "findIndex P xs = Some i \<Longrightarrow> i < length xs \<and> P (xs ! i) \<and> (\<forall>j<i. \<not> P (xs ! j))"
proof (induction xs arbitrary: i)
  case Nil
  then show ?case by simp
next
  case (Cons x xs)
  show ?case
  proof (cases "P x")
    case True
    with Cons.prems show ?thesis by simp
  next
    case False
    with Cons.prems obtain k where k: "findIndex P xs = Some k" "i = Suc k"
      by auto
    from Cons.IH [OF k(1)] False k(2) show ?thesis
      by (auto simp: nth_Cons split: nat.splits)
  qed
qed

lemma findIndex_None: "findIndex P xs = None \<longleftrightarrow> (\<forall>x\<in>set xs. \<not> P x)"
  by (induction xs) auto

lemma findIndex_append_fresh:
  "\<forall>x\<in>set xs. \<not> P x \<Longrightarrow> P y \<Longrightarrow> findIndex P (xs @ [y]) = Some (length xs)"
  by (induction xs) auto

lemma patchTurn_length: "length (patchTurn tid r url tn xs) = length xs"
  by (simp add: patchTurn_def split: option.splits)

lemma patchTurn_student_side:
  "map id_t (patchTurn tid r url tn xs) = map id_t xs"
  "map student_question (patchTurn tid r url tn xs) = map student_question xs"
  "map student_audio_url (patchTurn tid r url tn xs) = map student_audio_url xs"
  "map timestamp (patchTurn tid r url tn xs) = map timestamp xs"
  by (auto simp: patchTurn_def map_update list_update_same_conv
           split: option.splits dest: findIndex_Some)

lemma patchTurn_changes_first_match:
  assumes "i < length xs" and "patchTurn tid r url tn xs ! i \<noteq> xs ! i"
  shows "id_t (xs ! i) = tid \<and> (\<forall>j<i. id_t (xs ! j) \<noteq> tid)"
proof (cases "findIndex (\<lambda>t. id_t t = tid) xs")
  case None
  with assms show ?thesis by (simp add: patchTurn_def)
next
  case (Some k)
  with assms have "k = i"
    by (cases "k = i") (simp_all add: patchTurn_def)
  with findIndex_Some [OF Some] show ?thesis by simp
qed

section \<open>Properties: the session helpers\<close>

text \<open>
  C4. With a session id held and the status request reporting it active, two
  \<open>ensureSession\<close> calls in a row both return the held id, keep it held, and make no
  start-session request.
\<close>

theorem ensureSession_idempotent:
  assumes "truthy (sessionIdRef s)"
      and "checkSessionStatus_r env1 = Inr True"
      and "checkSessionStatus_r env2 = Inr True"
  shows "fst (ensureSession env1 s) = Inr (sessionIdRef s)
       \<and> fst (ensureSession env2 (snd (ensureSession env1 s))) = Inr (sessionIdRef s)
       \<and> sessionIdRef (snd (ensureSession env2 (snd (ensureSession env1 s)))) = sessionIdRef s
       \<and> count_StartSession (calls (snd (ensureSession env2 (snd (ensureSession env1 s)))))
           = count_StartSession (calls s)"
  using assms
  by (simp add: ensureSession_def Let_def prog_defs count_StartSession_def)

theorem ensureSession_idempotent_witness:
  "truthy (sessionIdRef s_held) \<and> checkSessionStatus_r env_ok = Inr True
   \<and> fst (ensureSession env_ok s_held) = Inr (Some (str ''s1''))
   \<and> fst (ensureSession env_ok (snd (ensureSession env_ok s_held))) = Inr (Some (str ''s1''))
   \<and> count_StartSession (calls (snd (ensureSession env_ok (snd (ensureSession env_ok s_held)))))
       = 0"
  using ensureSession_idempotent [of s_held env_ok env_ok]
  by (simp add: s_held_def env_ok_def str_def count_StartSession_def)

text \<open>
  C5. With a session id held, \<open>endSessionCleanup\<close> makes the end request, completes
  normally whether that request succeeds or throws, and leaves the session id (state and
  ref) \<open>null\<close> and the session inactive.
\<close>

theorem endSessionCleanup_clears:
  assumes "truthy (sessionIdRef s)"
  shows "fst (endSessionCleanup env s) = Inr ()
       \<and> sessionId (snd (endSessionCleanup env s)) = None
       \<and> sessionIdRef (snd (endSessionCleanup env s)) = None
       \<and> \<not> sessionActive (snd (endSessionCleanup env s))
       \<and> calls (snd (endSessionCleanup env s)) = calls s @ [EndSession (or_empty (sessionIdRef s))]"
  using assms
  by (cases "endSession_r env") (simp_all add: endSessionCleanup_def prog_defs)

theorem endSessionCleanup_clears_witness:
  "truthy (sessionIdRef s_held)
   \<and> endSession_r (env_ok\<lparr>endSession_r := Inl NetworkError\<rparr>) = Inl NetworkError
   \<and> fst (endSessionCleanup (env_ok\<lparr>endSession_r := Inl NetworkError\<rparr>) s_held) = Inr ()
   \<and> sessionId (snd (endSessionCleanup (env_ok\<lparr>endSession_r := Inl NetworkError\<rparr>) s_held)) = None
   \<and> sessionIdRef (snd (endSessionCleanup (env_ok\<lparr>endSession_r := Inl NetworkError\<rparr>) s_held)) = None
   \<and> \<not> sessionActive (snd (endSessionCleanup (env_ok\<lparr>endSession_r := Inl NetworkError\<rparr>) s_held))"
  using endSessionCleanup_clears [of s_held "env_ok\<lparr>endSession_r := Inl NetworkError\<rparr>"]
  by (simp add: s_held_def env_ok_def str_def)

section \<open>Properties: the turn pipeline\<close>

lemma patchTurn_fresh:
  assumes "\<forall>x\<in>set old. id_t x \<noteq> tid" and "id_t t = tid"
  shows "patchTurn tid r url tn (old @ [t]) =
         old @ [t\<lparr>persona_response := r, persona_audio_url := url,
                  turn_number := Some (case tn of None \<Rightarrow> int (length old) + 1
                                       | Some n \<Rightarrow> if n \<noteq> 0 then n else int (length old) + 1)\<rparr>]"
  using findIndex_append_fresh [of old "\<lambda>x. id_t x = tid" t] assms
  by (simp add: patchTurn_def)

lemma trim_Hello: "trim (str ''Hello'') = str ''Hello''"
  by (simp add: trim_def str_def is_ws_def)

lemmas run_defs = processAudio_def processAudio_try_def synthesize_def base64ToBlob_def
  baseTurn_def patchTurn_def playAudio_def stopCurrentAudio_def seekZero_def audio_play_def
  new_Audio_def onended_def ensureSession_def initializeSession_def endSessionCleanup_def
  or_null_def trim_def is_ws_def str_def Let_def

text \<open>
  C1, amended. With a session available, a non-blank transcript and a non-empty reply:
  when the speech request throws, the exception goes to the one handler of the
  pipeline: the run ends normally, the error message is \<open>Failed to process audio\<close>, the
  processing flag is false, and the turn stays as created, with empty persona text and no
  persona audio. The reply text is committed with no audio when the speech request
  returns a result that carries neither inline audio nor a URL (here for a turn id not
  used before).
\<close>

theorem synthesis_failure_aborts_commit:
  assumes "(truthy (sessionIdRef s) \<and> checkSessionStatus_r env = Inr True)
           \<or> (\<exists>sid. startSession_r env = Inr sid \<and> truthy sid)"
      and "uploadAudio_r env = Inr tr" and "trim (or_empty tr) \<noteq> []"
      and "getPersonaReply_r env = Inr rr" and "trim (or_empty (reply rr)) \<noteq> []"
  shows "(\<forall>e. generateTTS_r env = Inl e \<longrightarrow>
            fst (processAudio env b u s) = Inr ()
          \<and> interviewTurns (snd (processAudio env b u s))
              = interviewTurns s @ [baseTurn env (trim (or_empty tr)) u]
          \<and> persona_response (last (interviewTurns (snd (processAudio env b u s)))) = []
          \<and> persona_audio_url (last (interviewTurns (snd (processAudio env b u s)))) = None
          \<and> error (snd (processAudio env b u s)) = str ''Failed to process audio''
          \<and> \<not> processing (snd (processAudio env b u s)))
       \<and> (\<forall>tts. generateTTS_r env = Inr tts
            \<and> \<not> truthy (audio_base64 tts) \<and> \<not> truthy (audio_url tts)
            \<and> (\<forall>x\<in>set (interviewTurns s). id_t x \<noteq> makeTurnId_r env) \<longrightarrow>
            fst (processAudio env b u s) = Inr ()
          \<and> interviewTurns (snd (processAudio env b u s))
              = interviewTurns s @
                [(baseTurn env (trim (or_empty tr)) u)
                   \<lparr>persona_response := trim (or_empty (reply rr)),
                    persona_audio_url := None,
                    turn_number := Some (case reply_turn_number rr of
                        None \<Rightarrow> int (length (interviewTurns s)) + 1
                      | Some n \<Rightarrow> if n \<noteq> 0 then n else int (length (interviewTurns s)) + 1)\<rparr>])"
proof -
  from assms(1) obtain sid s1
    where sess: "ensureSession env (s\<lparr>processing := True\<rparr>) = (Inr sid, s1)" "truthy sid"
    using ensureSession_ok [of "s\<lparr>processing := True\<rparr>" env] by auto
  from sess(1) have turns: "interviewTurns s1 = interviewTurns s"
    by (auto dest: ensureSession_turns)
  have id: "id_t (baseTurn env (trim (or_empty tr)) u) = makeTurnId_r env"
    by (simp add: baseTurn_def)
  have thrown: "processAudio env b u s = (Inr (), snd (processAudio env b u s))
        \<and> interviewTurns (snd (processAudio env b u s))
              = interviewTurns s @ [baseTurn env (trim (or_empty tr)) u]
        \<and> error (snd (processAudio env b u s)) = str ''Failed to process audio''
        \<and> \<not> processing (snd (processAudio env b u s))"
    if "generateTTS_r env = Inl e" for e
    using that sess turns assms(2-5)
    by (simp add: processAudio_def processAudio_try_def synthesize_def prog_defs Let_def)
  have silent: "processAudio env b u s = (Inr (), snd (processAudio env b u s))
        \<and> interviewTurns (snd (processAudio env b u s))
              = interviewTurns s @
                [(baseTurn env (trim (or_empty tr)) u)
                   \<lparr>persona_response := trim (or_empty (reply rr)),
                    persona_audio_url := None,
                    turn_number := Some (case reply_turn_number rr of
                        None \<Rightarrow> int (length (interviewTurns s)) + 1
                      | Some n \<Rightarrow> if n \<noteq> 0 then n else int (length (interviewTurns s)) + 1)\<rparr>]"
    if "generateTTS_r env = Inr tts" and "\<not> truthy (audio_base64 tts)"
      and "\<not> truthy (audio_url tts)"
      and fresh: "\<forall>x\<in>set (interviewTurns s). id_t x \<noteq> makeTurnId_r env" for tts
    using that sess turns assms(2-5) patchTurn_fresh [OF fresh id]
    by (simp add: processAudio_def processAudio_try_def synthesize_def prog_defs Let_def)
  show ?thesis
  proof (intro conjI allI impI)
    fix e assume e: "generateTTS_r env = Inl e"
    from thrown [OF e] show "fst (processAudio env b u s) = Inr ()"
      and "interviewTurns (snd (processAudio env b u s))
              = interviewTurns s @ [baseTurn env (trim (or_empty tr)) u]"
      and "error (snd (processAudio env b u s)) = str ''Failed to process audio''"
      and "\<not> processing (snd (processAudio env b u s))"
      by (simp_all add: prod_eq_iff)
    from thrown [OF e]
    show "persona_response (last (interviewTurns (snd (processAudio env b u s)))) = []"
      and "persona_audio_url (last (interviewTurns (snd (processAudio env b u s)))) = None"
      by (simp_all add: baseTurn_def)
  next
    fix tts
    assume a: "generateTTS_r env = Inr tts
            \<and> \<not> truthy (audio_base64 tts) \<and> \<not> truthy (audio_url tts)
            \<and> (\<forall>x\<in>set (interviewTurns s). id_t x \<noteq> makeTurnId_r env)"
    then have "processAudio env b u s = (Inr (), snd (processAudio env b u s))
        \<and> interviewTurns (snd (processAudio env b u s))
              = interviewTurns s @
                [(baseTurn env (trim (or_empty tr)) u)
                   \<lparr>persona_response := trim (or_empty (reply rr)),
                    persona_audio_url := None,
                    turn_number := Some (case reply_turn_number rr of
                        None \<Rightarrow> int (length (interviewTurns s)) + 1
                      | Some n \<Rightarrow> if n \<noteq> 0 then n else int (length (interviewTurns s)) + 1)\<rparr>]"
      using silent [of tts] by blast
    then show "fst (processAudio env b u s) = Inr ()"
      and "interviewTurns (snd (processAudio env b u s))
              = interviewTurns s @
                [(baseTurn env (trim (or_empty tr)) u)
                   \<lparr>persona_response := trim (or_empty (reply rr)),
                    persona_audio_url := None,
                    turn_number := Some (case reply_turn_number rr of
                        None \<Rightarrow> int (length (interviewTurns s)) + 1
                      | Some n \<Rightarrow> if n \<noteq> 0 then n else int (length (interviewTurns s)) + 1)\<rparr>]"
      by (simp_all add: prod_eq_iff)
  qed
qed

theorem synthesis_failure_aborts_commit_witness:
  "truthy (sessionIdRef s_held)
   \<and> trim (or_empty (Some (str ''Hello''))) \<noteq> []
   \<and> trim (or_empty (reply (ReplyResult (Some (str ''Good question'')) (Some 1)))) \<noteq> []
   \<and> fst (processAudio (env_ok\<lparr>generateTTS_r := Inl NetworkError\<rparr>) [] None s_held) = Inr ()
   \<and> map persona_response
        (interviewTurns (snd (processAudio (env_ok\<lparr>generateTTS_r := Inl NetworkError\<rparr>)
           [] None s_held))) = [[]]
   \<and> map persona_audio_url
        (interviewTurns (snd (processAudio (env_ok\<lparr>generateTTS_r := Inl NetworkError\<rparr>)
           [] None s_held))) = [None]
   \<and> error (snd (processAudio (env_ok\<lparr>generateTTS_r := Inl NetworkError\<rparr>) [] None s_held))
        = str ''Failed to process audio''
   \<and> map persona_response
        (interviewTurns (snd (processAudio (env_ok\<lparr>generateTTS_r := Inr (TTSResult None None)\<rparr>)
           [] None s_held))) = [str ''Good question'']
   \<and> map persona_audio_url
        (interviewTurns (snd (processAudio (env_ok\<lparr>generateTTS_r := Inr (TTSResult None None)\<rparr>)
           [] None s_held))) = [None]"
  using synthesis_failure_aborts_commit
    [of s_held "env_ok\<lparr>generateTTS_r := Inl NetworkError\<rparr>" "Some (str ''Hello'')"
        "ReplyResult (Some (str ''Good question'')) (Some 1)" "[]" None]
    synthesis_failure_aborts_commit
    [of s_held "env_ok\<lparr>generateTTS_r := Inr (TTSResult None None)\<rparr>" "Some (str ''Hello'')"
        "ReplyResult (Some (str ''Good question'')) (Some 1)" "[]" None]
  by (simp add: env_ok_def s_held_def baseTurn_def trim_def is_ws_def str_def)

text \<open>
  C1, as stated, fails: with the reply \<open>Good question\<close> obtained and the speech request
  rejected, the turn keeps its empty persona text.
\<close>

theorem synthesis_failure_counterexample:
  "getPersonaReply_r (env_ok\<lparr>generateTTS_r := Inl NetworkError\<rparr>)
     = Inr (ReplyResult (Some (str ''Good question'')) (Some 1))
   \<and> generateTTS_r (env_ok\<lparr>generateTTS_r := Inl NetworkError\<rparr>) = Inl NetworkError
   \<and> map persona_response
        (interviewTurns (snd (processAudio (env_ok\<lparr>generateTTS_r := Inl NetworkError\<rparr>)
           [] None s_held))) = [[]]
   \<and> map persona_response
        (interviewTurns (snd (processAudio (env_ok\<lparr>generateTTS_r := Inl NetworkError\<rparr>)
           [] None s_held))) \<noteq> [str ''Good question'']"
  by (simp add: env_ok_def s_held_def run_defs prog_defs)

text \<open>
  C2. When transcription returns an empty or whitespace-only string, the run leaves the
  turn sequence as it was, ends normally, and the processing flag is false at its end.
  This holds whatever the session step did.
\<close>

theorem blank_transcript_creates_no_turn:
  assumes "uploadAudio_r env = Inr (Some t)" and "\<forall>c\<in>set t. is_ws c"
  shows "interviewTurns (snd (processAudio env b u s)) = interviewTurns s
       \<and> \<not> processing (snd (processAudio env b u s))
       \<and> fst (processAudio env b u s) = Inr ()"
proof -
  from assms(2) have "trim t = []" by (rule trim_blank)
  with assms(1) show ?thesis
    by (auto simp: processAudio_def processAudio_try_def prog_defs Let_def
        split: prod.splits sum.splits dest!: ensureSession_turns)
qed

theorem blank_transcript_creates_no_turn_witness:
  "uploadAudio_r (env_ok\<lparr>uploadAudio_r := Inr (Some (str '' ''))\<rparr>) = Inr (Some (str '' ''))
   \<and> list_all is_ws (str '' '')
   \<and> interviewTurns (snd (processAudio (env_ok\<lparr>uploadAudio_r := Inr (Some (str '' ''))\<rparr>)
          [] None s_held)) = []
   \<and> \<not> processing (snd (processAudio (env_ok\<lparr>uploadAudio_r := Inr (Some (str '' ''))\<rparr>)
          [] None s_held))"
  using blank_transcript_creates_no_turn
    [of "env_ok\<lparr>uploadAudio_r := Inr (Some (str '' ''))\<rparr>" "str '' ''" "[]" None s_held]
  by (simp add: env_ok_def s_held_def str_def is_ws_def)

text \<open>
  C3. From an empty turn sequence, with a session available (the held session is
  reported active, or the start request returns an id), a transcript \<open>Hello\<close> and a
  failing persona-reply request: the run ends normally, and the turn sequence is exactly
  the one turn created in step 2, with student text \<open>Hello\<close> and empty persona text.
\<close>

theorem reply_failure_keeps_partial_turn:
  assumes "interviewTurns s = []"
      and "(truthy (sessionIdRef s) \<and> checkSessionStatus_r env = Inr True)
           \<or> (\<exists>sid. startSession_r env = Inr sid \<and> truthy sid)"
      and "uploadAudio_r env = Inr (Some (str ''Hello''))"
      and "getPersonaReply_r env = Inl e"
  shows "fst (processAudio env b u s) = Inr ()
       \<and> length (interviewTurns (snd (processAudio env b u s))) = 1
       \<and> map student_question (interviewTurns (snd (processAudio env b u s))) = [str ''Hello'']
       \<and> map persona_response (interviewTurns (snd (processAudio env b u s))) = [[]]
       \<and> interviewTurns (snd (processAudio env b u s)) = [baseTurn env (str ''Hello'') u]"
proof -
  from assms(2) obtain sid s1
    where sess: "ensureSession env (s\<lparr>processing := True\<rparr>) = (Inr sid, s1)" "truthy sid"
    using ensureSession_ok [of "s\<lparr>processing := True\<rparr>" env] by auto
  from sess(1) assms(1) have "interviewTurns s1 = []"
    by (auto dest: ensureSession_turns)
  moreover have "str ''Hello'' \<noteq> []" by (simp add: str_def)
  ultimately show ?thesis using sess assms(3,4)
    by (simp add: processAudio_def processAudio_try_def prog_defs Let_def trim_Hello baseTurn_def)
qed

theorem reply_failure_keeps_partial_turn_witness:
  "interviewTurns s_held = []
   \<and> truthy (sessionIdRef s_held)
   \<and> checkSessionStatus_r (env_ok\<lparr>getPersonaReply_r := Inl NetworkError\<rparr>) = Inr True
   \<and> fst (processAudio (env_ok\<lparr>getPersonaReply_r := Inl NetworkError\<rparr>) [] None s_held) = Inr ()
   \<and> map student_question
        (interviewTurns (snd (processAudio (env_ok\<lparr>getPersonaReply_r := Inl NetworkError\<rparr>)
           [] None s_held))) = [str ''Hello'']
   \<and> map persona_response
        (interviewTurns (snd (processAudio (env_ok\<lparr>getPersonaReply_r := Inl NetworkError\<rparr>)
           [] None s_held))) = [[]]"
  using reply_failure_keeps_partial_turn
    [of s_held "env_ok\<lparr>getPersonaReply_r := Inl NetworkError\<rparr>" NetworkError "[]" None]
  by (simp add: env_ok_def s_held_def str_def baseTurn_def)

text \<open>
  C9. A pipeline run leaves the turn sequence unchanged, or makes it one longer: ids,
  student texts, student audio references and timestamps of the earlier turns stay in
  place and in order, and the new turn comes last. A turn that differs from the sequence
  as appended has the id of this run, and is the first turn with that id: the update
  selects by id. The session helpers, the playback controller and the key handlers leave
  the turn sequence unchanged.
\<close>

theorem turn_sequence_append_only:
  "(interviewTurns (snd (processAudio env b u s)) = interviewTurns s
    \<or> (\<exists>text.
         length (interviewTurns (snd (processAudio env b u s))) = Suc (length (interviewTurns s))
       \<and> map id_t (interviewTurns (snd (processAudio env b u s)))
           = map id_t (interviewTurns s) @ [makeTurnId_r env]
       \<and> map student_question (interviewTurns (snd (processAudio env b u s)))
           = map student_question (interviewTurns s) @ [text]
       \<and> map student_audio_url (interviewTurns (snd (processAudio env b u s)))
           = map student_audio_url (interviewTurns s) @ [or_null u]
       \<and> map timestamp (interviewTurns (snd (processAudio env b u s)))
           = map timestamp (interviewTurns s) @ [toISOString_r env]
       \<and> (\<forall>i<Suc (length (interviewTurns s)).
             interviewTurns (snd (processAudio env b u s)) ! i
               \<noteq> (interviewTurns s @ [baseTurn env text u]) ! i
             \<longrightarrow> id_t ((interviewTurns s @ [baseTurn env text u]) ! i) = makeTurnId_r env
               \<and> (\<forall>j<i. id_t ((interviewTurns s @ [baseTurn env text u]) ! j)
                          \<noteq> makeTurnId_r env))))
   \<and> interviewTurns (snd (ensureSession env s)) = interviewTurns s
   \<and> interviewTurns (snd (endSessionCleanup env s)) = interviewTurns s
   \<and> interviewTurns (snd (playAudio env url k s)) = interviewTurns s
   \<and> interviewTurns (snd (stopCurrentAudio s)) = interviewTurns s
   \<and> interviewTurns (snd (onended s)) = interviewTurns s
   \<and> interviewTurns (snd (step ev s)) = interviewTurns s"
proof (intro conjI)
  let ?old = "interviewTurns s"
  let ?new = "interviewTurns (snd (processAudio env b u s))"
  let ?text = "case uploadAudio_r env of Inl e \<Rightarrow> [] | Inr tr \<Rightarrow> trim (or_empty tr)"
  let ?xs = "?old @ [baseTurn env ?text u]"
  from processAudio_turns_shape [of env b u s] obtain purl rt tn
    where "?new = ?old \<or> ?new = ?xs \<or> ?new = patchTurn (makeTurnId_r env) rt purl tn ?xs"
    by auto
  then consider "?new = ?old" | "?new = ?xs"
    | "?new = patchTurn (makeTurnId_r env) rt purl tn ?xs" by blast
  then show "?new = ?old \<or> (\<exists>text.
         length ?new = Suc (length ?old)
       \<and> map id_t ?new = map id_t ?old @ [makeTurnId_r env]
       \<and> map student_question ?new = map student_question ?old @ [text]
       \<and> map student_audio_url ?new = map student_audio_url ?old @ [or_null u]
       \<and> map timestamp ?new = map timestamp ?old @ [toISOString_r env]
       \<and> (\<forall>i<Suc (length ?old).
             ?new ! i \<noteq> (?old @ [baseTurn env text u]) ! i
             \<longrightarrow> id_t ((?old @ [baseTurn env text u]) ! i) = makeTurnId_r env
               \<and> (\<forall>j<i. id_t ((?old @ [baseTurn env text u]) ! j) \<noteq> makeTurnId_r env)))"
  proof cases
    case 1
    then show ?thesis by simp
  next
    case 2
    then have "length ?new = Suc (length ?old)
       \<and> map id_t ?new = map id_t ?old @ [makeTurnId_r env]
       \<and> map student_question ?new = map student_question ?old @ [?text]
       \<and> map student_audio_url ?new = map student_audio_url ?old @ [or_null u]
       \<and> map timestamp ?new = map timestamp ?old @ [toISOString_r env]
       \<and> (\<forall>i<Suc (length ?old). ?new ! i \<noteq> ?xs ! i
             \<longrightarrow> id_t (?xs ! i) = makeTurnId_r env
               \<and> (\<forall>j<i. id_t (?xs ! j) \<noteq> makeTurnId_r env))"
      by (simp add: baseTurn_def)
    then show ?thesis by blast
  next
    case 3
    have "\<forall>i<Suc (length ?old). ?new ! i \<noteq> ?xs ! i
             \<longrightarrow> id_t (?xs ! i) = makeTurnId_r env
               \<and> (\<forall>j<i. id_t (?xs ! j) \<noteq> makeTurnId_r env)"
      using patchTurn_changes_first_match [of _ ?xs "makeTurnId_r env" rt purl tn]
      unfolding 3 by simp
    moreover have "length ?new = Suc (length ?old)
       \<and> map id_t ?new = map id_t ?old @ [makeTurnId_r env]
       \<and> map student_question ?new = map student_question ?old @ [?text]
       \<and> map student_audio_url ?new = map student_audio_url ?old @ [or_null u]
       \<and> map timestamp ?new = map timestamp ?old @ [toISOString_r env]"
      unfolding 3 by (simp add: patchTurn_length patchTurn_student_side baseTurn_def)
    ultimately show ?thesis by blast
  qed
next
  show "interviewTurns (snd (ensureSession env s)) = interviewTurns s"
    using ensureSession_turns [of env s] by (simp add: prod_eq_iff)
next
  show "interviewTurns (snd (endSessionCleanup env s)) = interviewTurns s"
    by (cases "endSession_r env") (simp_all add: endSessionCleanup_def Let_def prog_defs)
next
  show "interviewTurns (snd (playAudio env url k s)) = interviewTurns s"
    using playAudio_turns [of env url k s] by (simp add: prod_eq_iff)
next
  show "interviewTurns (snd (stopCurrentAudio s)) = interviewTurns s"
    using stopCurrentAudio_turns [of s] by (simp add: prod_eq_iff)
next
  show "interviewTurns (snd (onended s)) = interviewTurns s"
    by (simp add: onended_def prog_defs)
next
  show "interviewTurns (snd (step ev s)) = interviewTurns s"
    by (cases ev) (simp_all add: onKeyDown_def onKeyUp_def Let_def)
qed

theorem turn_sequence_append_only_witness:
  "(1::nat) < Suc (length (interviewTurns (s_held\<lparr>interviewTurns := [turn0]\<rparr>)))
   \<and> interviewTurns (snd (processAudio env_ok [] None (s_held\<lparr>interviewTurns := [turn0]\<rparr>)))
       \<noteq> interviewTurns (s_held\<lparr>interviewTurns := [turn0]\<rparr>)
   \<and> interviewTurns (snd (processAudio env_ok [] None (s_held\<lparr>interviewTurns := [turn0]\<rparr>))) ! 0
       \<noteq> (interviewTurns (s_held\<lparr>interviewTurns := [turn0]\<rparr>)
            @ [baseTurn env_ok (str ''Hello'') None]) ! 0
   \<and> id_t (interviewTurns (s_held\<lparr>interviewTurns := [turn0]\<rparr>) ! 0) = makeTurnId_r env_ok
   \<and> map id_t (interviewTurns (snd (processAudio env_ok [] None
        (s_held\<lparr>interviewTurns := [turn0]\<rparr>)))) = [str ''t1'', str ''t1'']
   \<and> map persona_response (interviewTurns (snd (processAudio env_ok [] None
        (s_held\<lparr>interviewTurns := [turn0]\<rparr>)))) = [str ''Good question'', []]"
  using turn_sequence_append_only [of env_ok "[]" None "s_held\<lparr>interviewTurns := [turn0]\<rparr>"]
  by (simp add: env_ok_def s_held_def turn0_def run_defs prog_defs)

section \<open>Properties: push-to-talk\<close>

lemma step_held:
  "spaceIsDownRef s \<Longrightarrow> \<not> is_space_keyup ev
   \<Longrightarrow> fst (step ev s) = None \<and> spaceIsDownRef (snd (step ev s))"
  by (cases ev) (simp_all add: onKeyDown_def onKeyUp_def)

lemma step_emit:
  "fst (step ev s) = Some t \<Longrightarrow> spaceIsDownRef (snd (step ev s))"
  by (cases ev) (simp_all add: onKeyDown_def onKeyUp_def Let_def split: if_splits)

lemma step_emit_keydown:
  "fst (step ev s) = Some t \<Longrightarrow> \<exists>e. ev = KeyDown e \<and> isSpace e \<and> \<not> targetIsEditable e"
  by (cases ev) (simp_all add: onKeyDown_def onKeyUp_def Let_def split: if_splits)

lemma run_Cons: "run (ev # evs) s = fst (step ev s) # run evs (snd (step ev s))"
  by (simp split: prod.splits)

lemma run_held:
  "spaceIsDownRef s \<Longrightarrow> \<forall>e\<in>set evs. \<not> is_space_keyup e \<Longrightarrow> transitions (run evs s) = 0"
proof (induction evs arbitrary: s)
  case Nil
  then show ?case by (simp add: transitions_def)
next
  case (Cons ev evs)
  from Cons.prems have h: "fst (step ev s) = None" "spaceIsDownRef (snd (step ev s))"
    using step_held [of s ev] by simp_all
  from Cons.IH [OF h(2)] Cons.prems(2) h(1) show ?case
    by (simp add: transitions_def run_Cons del: run.simps)
qed

lemma run_at_most_one:
  "\<forall>e\<in>set evs. \<not> is_space_keyup e \<Longrightarrow> transitions (run evs s) \<le> 1"
proof (induction evs arbitrary: s)
  case Nil
  then show ?case by (simp add: transitions_def)
next
  case (Cons ev evs)
  show ?case
  proof (cases "fst (step ev s)")
    case None
    with Cons.IH [of "snd (step ev s)"] Cons.prems show ?thesis
      by (simp add: transitions_def run_Cons del: run.simps)
  next
    case (Some t)
    then have "spaceIsDownRef (snd (step ev s))" by (rule step_emit)
    with Cons.prems have "transitions (run evs (snd (step ev s))) = 0"
      by (simp add: run_held)
    with Some show ?thesis
      by (simp add: transitions_def run_Cons del: run.simps)
  qed
qed

lemma run_length: "length (run evs s) = length evs"
  by (induction evs arbitrary: s) (simp_all add: run_Cons del: run.simps(2))

lemma run_emit_keydown:
  "i < length evs \<Longrightarrow> run evs s ! i = Some t
   \<Longrightarrow> \<exists>e. evs ! i = KeyDown e \<and> isSpace e \<and> \<not> targetIsEditable e"
proof (induction evs arbitrary: s i)
  case Nil
  then show ?case by simp
next
  case (Cons ev evs)
  show ?case
  proof (cases i)
    case 0
    with Cons.prems have "fst (step ev s) = Some t" by (simp add: run_Cons del: run.simps)
    with 0 show ?thesis using step_emit_keydown by simp
  next
    case (Suc k)
    with Cons.prems Cons.IH [of k "snd (step ev s)"] show ?thesis
      by (simp add: run_Cons del: run.simps)
  qed
qed

text \<open>
  C8. Along any sequence of events with no key-up of the designated key, from any state
  of the screen, at most one start or stop transition is asked for, and none when the key
  is already down; after a key-down that asked for a transition, no further one is asked
  for until a key-up. Every transition is asked for by a key-down of the designated key
  outside an editable element. The refs that gate recording may change in between.
\<close>

theorem push_to_talk_debounce:
  assumes "\<forall>ev\<in>set evs. \<not> is_space_keyup ev"
  shows "transitions (run evs s) \<le> 1
       \<and> (spaceIsDownRef s \<longrightarrow> transitions (run evs s) = 0)
       \<and> (\<forall>e t. fst (onKeyDown e s) = Some t
                 \<longrightarrow> transitions (run evs (snd (onKeyDown e s))) = 0)
       \<and> (\<forall>i t. i < length evs \<and> run evs s ! i = Some t
                 \<longrightarrow> (\<exists>e. evs ! i = KeyDown e \<and> isSpace e \<and> \<not> targetIsEditable e))"
proof (intro conjI allI impI)
  show "transitions (run evs s) \<le> 1" using assms by (rule run_at_most_one)
next
  assume "spaceIsDownRef s"
  then show "transitions (run evs s) = 0" using assms by (rule run_held)
next
  fix e t assume "fst (onKeyDown e s) = Some t"
  then have "spaceIsDownRef (snd (onKeyDown e s))"
    using step_emit [of "KeyDown e" s t] by simp
  then show "transitions (run evs (snd (onKeyDown e s))) = 0" using assms by (rule run_held)
next
  fix i t assume "i < length evs \<and> run evs s ! i = Some t"
  then show "\<exists>e. evs ! i = KeyDown e \<and> isSpace e \<and> \<not> targetIsEditable e"
    using run_emit_keydown by blast
qed

theorem push_to_talk_debounce_witness:
  "list_all (\<lambda>ev. \<not> is_space_keyup ev)
      [KeyDown space_key, KeyDown space_key, Rendered True False True, KeyDown space_key]
   \<and> run [KeyDown space_key, KeyDown space_key, Rendered True False True, KeyDown space_key] s_held
       = [Some StartRecording, None, None, None]
   \<and> transitions (run [KeyDown space_key, KeyDown space_key, Rendered True False True,
                        KeyDown space_key] s_held) = 1
   \<and> fst (onKeyDown space_key s_held) = Some StartRecording
   \<and> transitions (run [KeyDown space_key, Rendered True False True, KeyDown space_key]
                    (snd (onKeyDown space_key s_held))) = 0
   \<and> run [KeyDown space_key, KeyUp space_key, KeyDown space_key] s_held
       = [Some StartRecording, None, Some StartRecording]"
  using push_to_talk_debounce
    [of "[KeyDown space_key, KeyDown space_key, Rendered True False True, KeyDown space_key]" s_held]
    push_to_talk_debounce
    [of "[KeyDown space_key, Rendered True False True, KeyDown space_key]" s_held]
  by (simp add: space_key_def s_held_def onKeyDown_def onKeyUp_def isSpace_def targetIsEditable_def
        toLowerCase_def transitions_def str_def Let_def)

section \<open>Properties: the playback controller\<close>

lemmas audio_defs = playAudio_def stopCurrentAudio_def seekZero_def audio_play_def new_Audio_def
  onended_def

text \<open>
  C6, amended. A call with an empty or \<open>null\<close> reference returns normally and leaves
  the whole state as it was: nothing is stopped, loaded or played, and the now-playing
  key is kept. For a call with a non-empty reference, \<open>playAudio\<close> completes normally.
  If an element is held and the recorded URL is the reference, the position of that
  element is set to zero and play is requested on it, no element is created, and when
  the play request resolves the now-playing key becomes the key. Otherwise the held
  element, if any, is paused and reset first, a new element for the reference is created
  and recorded, the now-playing key becomes the key, and play is requested.
\<close>

theorem playAudio_behaviour:
  "(\<not> truthy url \<longrightarrow> playAudio env url k s = (Inr (), s))
   \<and> (truthy url \<longrightarrow>
      fst (playAudio env url k s) = Inr ()
    \<and> (\<forall>a. currentAudioRef s = Some a \<and> Some (currentAudioUrlRef s) = url \<longrightarrow>
           calls (snd (playAudio env url k s))
             = calls s @ [AudioSeekZero (src a), AudioPlay (src a)]
         \<and> currentAudioUrlRef (snd (playAudio env url k s)) = currentAudioUrlRef s
         \<and> map_option src (currentAudioRef (snd (playAudio env url k s))) = Some (src a)
         \<and> map_option currentTime (currentAudioRef (snd (playAudio env url k s))) = Some 0
         \<and> (play_r env = Inr () \<longrightarrow>
               playingKey (snd (playAudio env url k s)) = or_empty k
             \<and> map_option paused (currentAudioRef (snd (playAudio env url k s))) = Some False))
    \<and> (\<not> (currentAudioRef s \<noteq> None \<and> Some (currentAudioUrlRef s) = url) \<longrightarrow>
           calls (snd (playAudio env url k s))
             = calls s
               @ (case currentAudioRef s of
                    None \<Rightarrow> []
                  | Some a \<Rightarrow> [AudioPause (src a), AudioSeekZero (src a)])
               @ [NewAudio (or_empty url), AudioPlay (or_empty url)]
         \<and> currentAudioUrlRef (snd (playAudio env url k s)) = or_empty url
         \<and> playingKey (snd (playAudio env url k s)) = or_empty k
         \<and> currentAudioRef (snd (playAudio env url k s))
             = Some \<lparr>src = or_empty url,
                     paused = (case play_r env of Inl e \<Rightarrow> True | Inr x \<Rightarrow> False),
                     currentTime = 0\<rparr>))"
proof (cases "truthy url")
  case False
  then show ?thesis
    by (simp add: playAudio_def prog_defs)
next
  case True
  then show ?thesis
    by (cases "play_r env"; cases "currentAudioRef s")
       (auto simp: audio_defs prog_defs)
qed

text \<open>
  C6, as stated for every call, fails: with \<open>blob:7\<close> playing under \<open>p-7\<close>, a call with
  the empty reference, or with \<open>null\<close>, and key \<open>p-8\<close> returns at the guard: nothing is
  stopped and the now-playing key stays \<open>p-7\<close>; and a call with the loaded reference
  whose play request is rejected leaves the now-playing key as it was.
\<close>

theorem playAudio_counterexample:
  "currentAudioUrlRef s_playing = str ''blob:7''
   \<and> playingKey s_playing = str ''p-7''
   \<and> playingKey (snd (playAudio env_ok (Some []) (Some (str ''p-8'')) s_playing)) = str ''p-7''
   \<and> calls (snd (playAudio env_ok (Some []) (Some (str ''p-8'')) s_playing)) = calls s_playing
   \<and> playingKey (snd (playAudio env_ok None (Some (str ''p-8'')) s_playing)) = str ''p-7''
   \<and> calls (snd (playAudio env_ok None (Some (str ''p-8'')) s_playing)) = calls s_playing
   \<and> playingKey (snd (playAudio (env_ok\<lparr>play_r := Inl NotAllowedError\<rparr>)
         (Some (str ''blob:7'')) (Some (str ''p-9'')) s_playing)) = str ''p-7''
   \<and> str ''p-7'' \<noteq> str ''p-8'' \<and> str ''p-7'' \<noteq> str ''p-9''"
  by (simp add: s_playing_def env_ok_def s_held_def audio_defs prog_defs str_def)

theorem playAudio_behaviour_witness:
  "truthy (Some (str ''blob:7''))
   \<and> currentAudioRef s_playing = Some \<lparr>src = str ''blob:7'', paused = False, currentTime = 0\<rparr>
   \<and> Some (currentAudioUrlRef s_playing) = Some (str ''blob:7'')
   \<and> play_r env_ok = Inr ()
   \<and> calls (snd (playAudio env_ok (Some (str ''blob:7'')) (Some (str ''p-7'')) s_playing))
       = calls s_playing @ [AudioSeekZero (str ''blob:7''), AudioPlay (str ''blob:7'')]
   \<and> playingKey (snd (playAudio env_ok (Some (str ''blob:7'')) (Some (str ''p-7'')) s_playing))
       = str ''p-7''
   \<and> calls (snd (playAudio env_ok (Some (str ''blob:8'')) (Some (str ''p-8'')) s_playing))
       = calls s_playing @ [AudioPause (str ''blob:7''), AudioSeekZero (str ''blob:7''),
                            NewAudio (str ''blob:8''), AudioPlay (str ''blob:8'')]
   \<and> playingKey (snd (playAudio env_ok (Some (str ''blob:8'')) (Some (str ''p-8'')) s_playing))
       = str ''p-8''
   \<and> \<not> truthy None \<and> \<not> truthy (Some [])
   \<and> playAudio env_ok None (Some (str ''p-8'')) s_playing = (Inr (), s_playing)
   \<and> playAudio env_ok (Some []) (Some (str ''p-8'')) s_playing = (Inr (), s_playing)"
  using playAudio_behaviour [of "Some (str ''blob:7'')" env_ok "Some (str ''p-7'')" s_playing]
        playAudio_behaviour [of "Some (str ''blob:8'')" env_ok "Some (str ''p-8'')" s_playing]
        playAudio_behaviour [of None env_ok "Some (str ''p-8'')" s_playing]
        playAudio_behaviour [of "Some []" env_ok "Some (str ''p-8'')" s_playing]
  by (simp add: s_playing_def env_ok_def s_held_def audio_defs prog_defs str_def)

text \<open>
  C7, amended. The \<open>onended\<close> handler clears the now-playing key and the recorded URL
  and leaves the element held. A play of any non-empty reference after it, the same one
  included, takes the reload path: the held element is paused and reset, and a new
  element is created and played.
\<close>

theorem natural_completion_forces_reload:
  assumes "currentAudioRef s = Some a" and "truthy url"
  shows "fst (onended s) = Inr ()
       \<and> playingKey (snd (onended s)) = []
       \<and> currentAudioUrlRef (snd (onended s)) = []
       \<and> currentAudioRef (snd (onended s)) = Some a
       \<and> calls (snd (playAudio env url k (snd (onended s))))
           = calls s @ [AudioPause (src a), AudioSeekZero (src a),
                        NewAudio (or_empty url), AudioPlay (or_empty url)]
       \<and> currentAudioRef (snd (playAudio env url k (snd (onended s))))
           = Some \<lparr>src = or_empty url,
                   paused = (case play_r env of Inl e \<Rightarrow> True | Inr x \<Rightarrow> False),
                   currentTime = 0\<rparr>"
  using assms
  by (cases "play_r env"; cases url)
     (auto simp: audio_defs prog_defs)

text \<open>
  C7, as stated, fails: after \<open>blob:7\<close> has ended, the recorded URL is empty, and playing
  \<open>blob:7\<close> again creates a new element instead of restarting the held one.
\<close>

theorem natural_completion_counterexample:
  "currentAudioUrlRef s_playing = str ''blob:7''
   \<and> currentAudioUrlRef (snd (onended s_playing)) = []
   \<and> calls (snd (playAudio env_ok (Some (str ''blob:7'')) (Some (str ''p-7''))
                  (snd (onended s_playing))))
       = calls s_playing @ [AudioPause (str ''blob:7''), AudioSeekZero (str ''blob:7''),
                            NewAudio (str ''blob:7''), AudioPlay (str ''blob:7'')]"
  by (simp add: s_playing_def env_ok_def s_held_def audio_defs prog_defs str_def)

theorem natural_completion_forces_reload_witness:
  "currentAudioRef s_playing = Some \<lparr>src = str ''blob:7'', paused = False, currentTime = 0\<rparr>
   \<and> truthy (Some (str ''blob:7''))
   \<and> playingKey (snd (onended s_playing)) = []
   \<and> currentAudioUrlRef (snd (onended s_playing)) = []
   \<and> calls (snd (playAudio env_ok (Some (str ''blob:7'')) (Some (str ''p-7''))
                  (snd (onended s_playing))))
       = [NewAudio (str ''blob:7''), AudioPlay (str ''blob:7''),
          AudioPause (str ''blob:7''), AudioSeekZero (str ''blob:7''),
          NewAudio (str ''blob:7''), AudioPlay (str ''blob:7'')]"
  using natural_completion_forces_reload
    [of s_playing "\<lparr>src = str ''blob:7'', paused = False, currentTime = 0\<rparr>"
        "Some (str ''blob:7'')" env_ok "Some (str ''p-7'')"]
  by (simp add: s_playing_def env_ok_def s_held_def audio_defs prog_defs str_def)

section \<open>Properties: the feedback adapter\<close>

lemma ToString_throws_iff:
  "isl (ToString_v numstr v) = unconvertible v"
  "isl (join_v numstr xs) = unconvertible_list xs"
  "isl (element_v numstr w) = unconvertible w"
  by (induction numstr v and numstr xs and numstr w rule: ToString_v_join_v_element_v.induct)
     (auto simp: andThen_def split: sum.splits)

lemma Number_v_throws_iff: "isl (Number_v strnum numstr v) = unconvertible v"
proof (cases v)
  case (JArr xs)
  then show ?thesis
    using ToString_throws_iff(1) [of numstr "JArr xs"]
    by (auto simp: andThen_def split: sum.splits)
next
  case (JObj kvs)
  then show ?thesis
    by (auto simp: andThen_def split: sum.splits)
qed simp_all

lemma unconvertible_or_zero: "unconvertible (or_v sc (JNum (JFin 0))) = unconvertible sc"
  by (cases sc) (simp_all add: or_v_def)

lemma Number_v_falsy: "\<not> truthy_v sc \<Longrightarrow> Number_v strnum numstr (or_v sc (JNum (JFin 0))) = Inr (JFin 0)"
  by (simp add: or_v_def)

lemma make_category_ok:
  assumes "has_string_category_id e"
      and "\<forall>sc. get_prop e (str ''score'') = Inr sc \<longrightarrow> \<not> unconvertible sc"
  shows "\<exists>c. make_category strnum numstr e = Inr c
         \<and> (\<forall>sc. get_prop e (str ''score'') = Inr sc \<longrightarrow>
               Number_v strnum numstr (or_v sc (JNum (JFin 0))) = Inr (score c)
             \<and> (\<not> truthy_v sc \<longrightarrow> score c = JFin 0))"
proof -
  from assms(1) obtain kvs cid where e: "e = JObj kvs" "get_prop e (str ''category_id'') = Inr (JStr cid)"
    by (cases e) (auto split: option.splits jsval.splits)
  then obtain sc where sc: "get_prop e (str ''score'') = Inr sc" by simp
  with assms(2) have "\<not> isl (Number_v strnum numstr (or_v sc (JNum (JFin 0))))"
    by (simp add: Number_v_throws_iff unconvertible_or_zero)
  then obtain n where n: "Number_v strnum numstr (or_v sc (JNum (JFin 0))) = Inr n"
    by (cases "Number_v strnum numstr (or_v sc (JNum (JFin 0)))") auto
  have "\<not> truthy_v sc \<Longrightarrow> n = JFin 0"
    using n Number_v_falsy [of sc strnum numstr] by simp
  with e sc n show ?thesis
    by (auto simp: make_category_def andThen_def)
qed

lemma map_throwing_ok:
  assumes "\<forall>x\<in>set xs. \<exists>y. f x = Inr y \<and> P x y"
  shows "\<exists>ys. map_throwing f xs = Inr ys \<and> list_all2 P xs ys"
  using assms
proof (induction xs)
  case Nil
  then show ?case by simp
next
  case (Cons x xs)
  then obtain y ys where "f x = Inr y" "P x y" "map_throwing f xs = Inr ys" "list_all2 P xs ys"
    by auto
  then show ?case by (simp add: andThen_def)
qed


lemma get_prop_truthy: "truthy_v v \<Longrightarrow> \<exists>x. get_prop v k = Inr x"
  by (cases v) simp_all

lemma Object_values_or: "\<exists>es. Object_values (or_v v (JObj [])) = Inr es"
  by (cases v) (simp_all add: or_v_def)

lemma array_or_empty_isArray: "isArray (array_or_empty v)"
  by (simp add: array_or_empty_def)

text \<open>
  C10, amended. For a report (a JSON value, \<open>null\<close> or \<open>undefined\<close>) in which every
  entry of \<open>scores\<close> carries a string \<open>category_id\<close> and a score that \<open>Number\<close>
  converts (a missing score, a primitive, or an array or object holding no object with
  an own property \<open>toString\<close>), \<open>normalizeReport\<close> returns and does not throw. For
  \<open>null\<close> and \<open>undefined\<close> the result is the empty one. The fields \<open>strengths\<close>,
  \<open>improvements\<close> and \<open>quotes\<close> of the result are arrays: the input field
  (\<open>quote_highlights\<close> for \<open>quotes\<close>) when that is an array, the empty array otherwise.
  There is one category per entry, in order, whose score is \<open>Number\<close> of the entry's
  score, and \<open>0\<close> when that score is missing or falsy.
\<close>

theorem normalizeReport_total:
  assumes "\<forall>e\<in>set (score_entries report).
             has_string_category_id e
           \<and> (\<forall>sc. get_prop e (str ''score'') = Inr sc \<longrightarrow> \<not> unconvertible sc)"
  shows "\<exists>r. normalizeReport strnum numstr report = Inr r
     \<and> (report = JNull \<or> report = JUndefined \<longrightarrow>
          r = \<lparr>categories = [], strengths = JArr [], improvements = JArr [], quotes = JArr [],
               overall = []\<rparr>)
     \<and> isArray (strengths r) \<and> isArray (improvements r) \<and> isArray (quotes r)
     \<and> (\<forall>v. get_prop report (str ''strengths'') = Inr v \<longrightarrow>
            strengths r = (if isArray v then v else JArr []))
     \<and> (\<forall>v. get_prop report (str ''improvements'') = Inr v \<longrightarrow>
            improvements r = (if isArray v then v else JArr []))
     \<and> (\<forall>v. get_prop report (str ''quote_highlights'') = Inr v \<longrightarrow>
            quotes r = (if isArray v then v else JArr []))
     \<and> list_all2
          (\<lambda>e c. \<forall>sc. get_prop e (str ''score'') = Inr sc \<longrightarrow>
                    Number_v strnum numstr (or_v sc (JNum (JFin 0))) = Inr (score c)
                  \<and> (\<not> truthy_v sc \<longrightarrow> score c = JFin 0))
          (score_entries report) (categories r)"
proof (cases "truthy_v report")
  case False
  then have "score_entries report = []"
    by (cases report) (simp_all add: score_entries_def andThen_def or_v_def)
  moreover from False have "\<forall>k v. get_prop report k = Inr v \<longrightarrow> \<not> isArray v"
    by (cases report) auto
  ultimately show ?thesis using False
    by (simp add: normalizeReport_def)
next
  case True
  let ?P = "\<lambda>e c. \<forall>sc. get_prop e (str ''score'') = Inr sc \<longrightarrow>
                    Number_v strnum numstr (or_v sc (JNum (JFin 0))) = Inr (score c)
                  \<and> (\<not> truthy_v sc \<longrightarrow> score c = JFin 0)"
  from True obtain scores where scores: "get_prop report (str ''scores'') = Inr scores"
    using get_prop_truthy by blast
  obtain entries where entries: "Object_values (or_v scores (JObj [])) = Inr entries"
    using Object_values_or by blast
  from scores entries have se: "score_entries report = entries"
    by (simp add: score_entries_def andThen_def)
  from assms se have "\<forall>e\<in>set entries. \<exists>c. make_category strnum numstr e = Inr c \<and> ?P e c"
    using make_category_ok by blast
  then obtain cats where cats: "map_throwing (make_category strnum numstr) entries = Inr cats"
      "list_all2 ?P entries cats"
    using map_throwing_ok [of entries "make_category strnum numstr" ?P] by blast
  from True have nn: "report \<noteq> JNull" "report \<noteq> JUndefined" by auto
  from True obtain st im qh os ol osm tt du where fields:
      "get_prop report (str ''strengths'') = Inr st"
      "get_prop report (str ''improvements'') = Inr im"
      "get_prop report (str ''quote_highlights'') = Inr qh"
      "get_prop report (str ''overall_score'') = Inr os"
      "get_prop report (str ''overall_level'') = Inr ol"
      "get_prop report (str ''overall_summary'') = Inr osm"
      "get_prop report (str ''total_turns'') = Inr tt"
      "get_prop report (str ''duration_seconds'') = Inr du"
    using get_prop_truthy by metis
  from True scores entries cats(1) fields
  have "normalizeReport strnum numstr report =
          Inr \<lparr>categories = cats, strengths = array_or_empty st,
               improvements = array_or_empty im, quotes = array_or_empty qh,
               overall = [(str ''score'', os), (str ''level'', ol), (str ''summary'', osm),
                          (str ''totalTurns'', tt), (str ''durationSeconds'', du)]\<rparr>"
    by (simp add: normalizeReport_def andThen_def)
  with cats(2) se nn fields show ?thesis
    by (simp add: array_or_empty_def)
qed

theorem normalizeReport_total_witness:
  "list_all has_string_category_id (score_entries report1)
   \<and> list_all (\<lambda>e. case get_prop e (str ''score'') of Inl x \<Rightarrow> False | Inr sc \<Rightarrow> \<not> unconvertible sc)
        (score_entries report1)
   \<and> length (score_entries report1) = 3
   \<and> (\<exists>r. normalizeReport (\<lambda>s. JNaN) (\<lambda>n. []) report1 = Inr r
         \<and> strengths r = JArr [JStr (str ''Warm tone'')]
         \<and> improvements r = JArr []
         \<and> quotes r = JArr []
         \<and> map score (categories r) = [JFin 3, JFin 0, JNaN]
         \<and> map name (categories r)
             = [str ''Active Listening'', str ''Open Questions'', str ''Follow Up''])
   \<and> normalizeReport (\<lambda>s. JNaN) (\<lambda>n. []) JNull
       = Inr \<lparr>categories = [], strengths = JArr [], improvements = JArr [], quotes = JArr [],
              overall = []\<rparr>"
  using normalizeReport_total [of report1 "\<lambda>s. JNaN" "\<lambda>n. []"]
        normalizeReport_total [of JNull "\<lambda>s. JNaN" "\<lambda>n. []"]
  by (simp add: report1_def normalizeReport_def score_entries_def make_category_def andThen_def
        or_v_def array_or_empty_def titleCase_def is_word_def toUpperCase_word_def str_def)

text \<open>
  C10, as stated, fails: a string \<open>category_id\<close> is not enough. The one entry of this
  report carries one, its score is the object \<open>{"toString": 0}\<close>, and \<open>Number\<close> of that
  score throws, so \<open>normalizeReport\<close> throws.
\<close>

theorem normalizeReport_counterexample:
  "list_all has_string_category_id (score_entries report_toString)
   \<and> normalizeReport (\<lambda>s. JNaN) (\<lambda>n. []) report_toString = Inl TypeError"
  by (simp add: report_toString_def normalizeReport_def score_entries_def make_category_def
        andThen_def or_v_def titleCase_def is_word_def toUpperCase_word_def str_def)

end
